theory Spec2Isabelle
  imports Complex_Main
begin

section \<open>The pipeline travel-time model of \<open>flow_model.py\<close>\<close>

text \<open>
  The embedding follows \<open>flow_model.py\<close> function by function. Python floats are
  idealised as real numbers: arithmetic is exact, there is no overflow and no NaN. The one
  non-finite value the program itself creates, \<open>float('inf')\<close>, is kept as a constructor
  of the type of travel times. Exceptions are values of \<open>py_error\<close>. The interactive
  prompts, the printed report, the time stamp and the JSON log are not modelled: \<open>main_body\<close>
  takes the tuple that \<open>get_user_input\<close> returns and gives back the record that is logged.
\<close>

subsection \<open>Python values\<close>

datatype py_error = IndexError | TypeError | ZeroDivisionError

text \<open>
  A float raised to a non-integral float power is a float for a base that is not negative
  and a complex number for a negative base. Every path of the program that meets a complex
  number ends in an exception, so its components are not tracked.
\<close>

datatype py_num = Flt real | Cplx

text \<open>\<open>x ** a\<close> for a float \<open>x\<close> and a non-integral exponent \<open>a\<close> (here 2.63 and 0.54).\<close>

definition py_pow :: "real \<Rightarrow> real \<Rightarrow> py_num" where
  "py_pow x a = (if x < 0 then Cplx else Flt (x powr a))"

fun py_mul :: "py_num \<Rightarrow> py_num \<Rightarrow> py_num" where
  "py_mul (Flt x) (Flt y) = Flt (x * y)"
| "py_mul _ _ = Cplx"

text \<open>Division of a float or complex number by a float: a zero divisor raises.\<close>

fun py_div :: "py_num \<Rightarrow> real \<Rightarrow> py_error + py_num" where
  "py_div n d =
     (if d = 0 then Inl ZeroDivisionError
      else case n of Flt x \<Rightarrow> Inr (Flt (x / d)) | Cplx \<Rightarrow> Inr Cplx)"

text \<open>Rounding to the nearest integer, ties to the even neighbour.\<close>

definition round_half_even :: "real \<Rightarrow> int" where
  "round_half_even y =
     (let f = \<lfloor>y\<rfloor>; d = y - of_int f
      in if d < 1 / 2 then f
         else if 1 / 2 < d then f + 1
         else if even f then f else f + 1)"

text \<open>\<open>round(x, n)\<close> on a float.\<close>

definition py_round :: "real \<Rightarrow> nat \<Rightarrow> real" where
  "py_round x n = of_int (round_half_even (x * 10 ^ n)) / 10 ^ n"

text \<open>\<open>round(v, n)\<close> on a number: the complex type has no \<open>__round__\<close>.\<close>

fun py_round_num :: "py_num \<Rightarrow> nat \<Rightarrow> py_error + real" where
  "py_round_num (Flt x) n = Inr (py_round x n)"
| "py_round_num Cplx n = Inl TypeError"

text \<open>\<open>d.get(k, default)\<close> on a dictionary literal.\<close>

definition dict_get :: "('k \<times> 'v) list \<Rightarrow> 'k \<Rightarrow> 'v \<Rightarrow> 'v" where
  "dict_get d k dflt = (case map_of d k of None \<Rightarrow> dflt | Some v \<Rightarrow> v)"

text \<open>A travel time: a float, or the \<open>float('inf')\<close> of an untraversable section.\<close>

datatype py_time = Fin real | PInf

fun time_add :: "py_time \<Rightarrow> py_time \<Rightarrow> py_time" where
  "time_add (Fin a) (Fin b) = Fin (a + b)"
| "time_add _ _ = PInf"

fun time_sub :: "py_time \<Rightarrow> real \<Rightarrow> py_time" where
  "time_sub (Fin a) x = Fin (a - x)"
| "time_sub PInf x = PInf"

subsection \<open>The material tables\<close>

definition ROUGHNESS_COEFFICIENTS :: "(string \<times> int) list" where
  "ROUGHNESS_COEFFICIENTS =
     [(''Cast Iron'', 100),
      (''Ductile Iron'', 110),
      (''Steel'', 120),
      (''Galvanized Steel'', 110),
      (''Stainless Steel'', 140),
      (''Copper'', 150),
      (''PVC/Plastic'', 155),
      (''Concrete'', 120)]"

definition CORROSION_RATES :: "(string \<times> real) list" where
  "CORROSION_RATES =
     [(''Cast Iron'', 0.1),
      (''Ductile Iron'', 0.05),
      (''Steel'', 0.2),
      (''Galvanized Steel'', 0.15),
      (''Stainless Steel'', 0.02),
      (''Copper'', 0.01),
      (''PVC/Plastic'', 0.0),
      (''Concrete'', 0.005)]"

subsection \<open>\<open>calculate_velocity\<close>\<close>

definition calculate_velocity :: "real \<Rightarrow> real \<Rightarrow> real \<Rightarrow> py_error + real" where
  "calculate_velocity diameter slope roughness =
     (let C = roughness; D_m = diameter; S = slope
      in if S = 0 then Inr 0
         else
           let Q = py_div (py_mul (py_mul (Flt C) (py_pow D_m 2.63)) (py_pow S 0.54)) 278.5;
               A = pi * (D_m / 2) ^ 2
           in case Q of
                Inl e \<Rightarrow> Inl e
              | Inr q \<Rightarrow>
                  (case py_div q A of
                     Inl e \<Rightarrow> Inl e
                   | Inr V \<Rightarrow> py_round_num V 2))"

subsection \<open>\<open>calculate_pipe_diameter_reduction\<close>\<close>

definition calculate_pipe_diameter_reduction :: "string \<Rightarrow> real \<Rightarrow> real \<Rightarrow> real" where
  "calculate_pipe_diameter_reduction material age initial_diameter =
     (let corrosion_rate = dict_get CORROSION_RATES material 0.1 / 1000;
          diameter_loss = 2 * (corrosion_rate * age);
          reduced_diameter = max (initial_diameter - diameter_loss) 0.01
      in py_round reduced_diameter 4)"

subsection \<open>\<open>get_user_input\<close> and \<open>main\<close>\<close>

text \<open>
  Of \<open>get_user_input\<close> the model keeps what it does to the values read: a material
  that is not a key of \<open>ROUGHNESS_COEFFICIENTS\<close> is replaced by \<open>Cast Iron\<close>.
\<close>

type_synonym user_input =
  "string \<times> int \<times> real \<times> real \<times> (real \<times> real) list \<times> (real \<times> real) list \<times> (real \<times> real) list"

fun get_user_input :: "user_input \<Rightarrow> user_input" where
  "get_user_input (material, age, initial_diameter, total_distance, reductions, slopes, pumps) =
     ((if material \<notin> fst ` set ROUGHNESS_COEFFICIENTS then ''Cast Iron'' else material),
      age, initial_diameter, total_distance, reductions, slopes, pumps)"

text \<open>The record written to the log (without its time stamp).\<close>

record traversal_data =
  pipe_material :: string
  pipe_age :: int
  initial_diameter_meters :: real
  reduced_diameter_meters :: real
  total_distance_meters :: real
  travel_time_seconds :: py_time

text \<open>\<open>slopes[0][0]\<close>\<close>

fun first_slope :: "(real \<times> real) list \<Rightarrow> py_error + real" where
  "first_slope [] = Inl IndexError"
| "first_slope ((slope, slope_distance) # rest) = Inr slope"

text \<open>\<open>slope_distance / velocity if velocity > 0 else float('inf')\<close>\<close>

definition section_time :: "real \<Rightarrow> real \<Rightarrow> py_time" where
  "section_time slope_distance velocity =
     (if velocity > 0 then Fin (slope_distance / velocity) else PInf)"

text \<open>
  The loop over the slope sections; the state is \<open>(total_time, remaining_distance)\<close>.
\<close>

fun slope_loop ::
  "real \<Rightarrow> real \<Rightarrow> (real \<times> real) list \<Rightarrow> py_time \<times> real \<Rightarrow> py_error + (py_time \<times> real)" where
  "slope_loop current_diameter roughness [] st = Inr st"
| "slope_loop current_diameter roughness ((slope, slope_distance) # rest)
       (total_time, remaining_distance) =
     (case calculate_velocity current_diameter slope roughness of
        Inl e \<Rightarrow> Inl e
      | Inr velocity \<Rightarrow>
          slope_loop current_diameter roughness rest
            (time_add total_time (section_time slope_distance velocity),
             remaining_distance - slope_distance))"

text \<open>The loop over the pumps.\<close>

fun pump_loop :: "(real \<times> real) list \<Rightarrow> py_time \<Rightarrow> py_time" where
  "pump_loop [] total_time = total_time"
| "pump_loop ((pump_flowrate, pump_position) # rest) total_time =
     pump_loop rest (time_sub total_time pump_flowrate)"

text \<open>\<open>main\<close> from the line after the call of \<open>get_user_input\<close>.\<close>

fun main_body :: "user_input \<Rightarrow> py_error + traversal_data" where
  "main_body (material, age, initial_diameter, total_distance, reductions, slopes, pumps) =
     (let reduced_diameter = calculate_pipe_diameter_reduction material (of_int age) initial_diameter;
          roughness = of_int (dict_get ROUGHNESS_COEFFICIENTS material 100);
          current_diameter = reduced_diameter
      in case first_slope slopes of
           Inl e \<Rightarrow> Inl e
         | Inr slope0 \<Rightarrow>
             (case calculate_velocity current_diameter slope0 roughness of
                Inl e \<Rightarrow> Inl e
              | Inr current_velocity \<Rightarrow>
                  (case slope_loop current_diameter roughness slopes (Fin 0, total_distance) of
                     Inl e \<Rightarrow> Inl e
                   | Inr (total_time, remaining_distance) \<Rightarrow>
                       Inr \<lparr> pipe_material = material,
                             pipe_age = age,
                             initial_diameter_meters = initial_diameter,
                             reduced_diameter_meters = reduced_diameter,
                             total_distance_meters = total_distance,
                             travel_time_seconds = pump_loop pumps total_time \<rparr>)))"

definition main :: "user_input \<Rightarrow> py_error + traversal_data" where
  "main inp = main_body (get_user_input inp)"

subsection \<open>The closed-form velocity of the specification\<close>

text \<open>
  These two definitions follow the words of the specification, not the code: the
  Hazen-Williams velocity \<open>C * D^2.63 * S^0.54 / 278.5\<close> divided by
  \<open>pi * (D/2)^2\<close> with no rounding, and the sum over the sections of
  section length divided by that velocity. They are what the code is compared with.
\<close>

definition spec_velocity :: "real \<Rightarrow> real \<Rightarrow> real \<Rightarrow> real" where
  "spec_velocity D S C = (C * D powr 2.63 * S powr 0.54 / 278.5) / (pi * (D / 2) ^ 2)"

definition spec_total_time :: "real \<Rightarrow> real \<Rightarrow> (real \<times> real) list \<Rightarrow> real" where
  "spec_total_time D C slopes =
     sum_list (map (\<lambda>(S, segment_length). segment_length / spec_velocity D S C) slopes)"

section \<open>Properties\<close>

subsection \<open>Rounding\<close>

lemma round_half_even_of_int: "round_half_even (of_int k) = k"
  by (simp add: round_half_even_def)

lemma round_half_even_lower: "y - 1 / 2 \<le> of_int (round_half_even y)"
  unfolding round_half_even_def Let_def by (auto; linarith)

lemma round_half_even_upper: "of_int (round_half_even y) \<le> y + 1 / 2"
  unfolding round_half_even_def Let_def by (auto; linarith)

lemma round_half_even_mono:
  assumes "x \<le> y"
  shows "round_half_even x \<le> round_half_even y"
proof -
  have fl: "\<lfloor>x\<rfloor> \<le> \<lfloor>y\<rfloor>" using assms by (rule floor_mono)
  show ?thesis
  proof (cases "\<lfloor>x\<rfloor> = \<lfloor>y\<rfloor>")
    case True
    then show ?thesis using assms
      unfolding round_half_even_def Let_def by auto
  next
    case False
    with fl have "\<lfloor>x\<rfloor> + 1 \<le> \<lfloor>y\<rfloor>" by simp
    moreover have "round_half_even x \<le> \<lfloor>x\<rfloor> + 1"
      unfolding round_half_even_def Let_def by auto
    moreover have "\<lfloor>y\<rfloor> \<le> round_half_even y"
      unfolding round_half_even_def Let_def by auto
    ultimately show ?thesis by linarith
  qed
qed

lemma py_round_mono: "x \<le> y \<Longrightarrow> py_round x n \<le> py_round y n"
  unfolding py_round_def
  by (intro divide_right_mono) (auto intro!: round_half_even_mono mult_right_mono)

lemma py_round_exact: "x * 10 ^ n = of_int k \<Longrightarrow> py_round x n = x"
  unfolding py_round_def by (simp add: round_half_even_of_int field_simps)

lemma py_round_small:
  assumes "0 \<le> x" "x < 1 / (2 * 10 ^ n)"
  shows "py_round x n = 0"
proof -
  have a: "0 \<le> x * 10 ^ n" using assms by simp
  have b: "x * 10 ^ n < 1 / 2" using assms by (simp add: field_simps)
  have "\<lfloor>x * 10 ^ n\<rfloor> = 0" using a b by (simp add: floor_eq_iff)
  then have "round_half_even (x * 10 ^ n) = 0"
    using b unfolding round_half_even_def Let_def by simp
  then show ?thesis by (simp add: py_round_def)
qed

subsection \<open>Velocity by cases of the slope\<close>

lemma calculate_velocity_pos:
  assumes "0 < d" "0 < s"
  shows "calculate_velocity d s c =
     Inr (py_round (c * (d powr 2.63) * (s powr 0.54) / 278.5 / (pi * (d / 2) ^ 2)) 2)"
  using assms by (simp add: calculate_velocity_def py_pow_def)

lemma calculate_velocity_zero: "calculate_velocity d 0 c = Inr 0"
  by (simp add: calculate_velocity_def)

lemma calculate_velocity_neg:
  assumes "0 < d" "s < 0"
  shows "calculate_velocity d s c = Inl TypeError"
  using assms by (simp add: calculate_velocity_def py_pow_def)

subsection \<open>The tables and the reduced diameter\<close>

lemma corrosion_rate_nonneg: "0 \<le> dict_get CORROSION_RATES m 0.1"
  by (simp add: dict_get_def CORROSION_RATES_def)



lemma roughness_pos: "0 < dict_get ROUGHNESS_COEFFICIENTS m 100"
  by (simp add: dict_get_def ROUGHNESS_COEFFICIENTS_def)

lemma py_round_hundredth: "py_round (1 / 100) 4 = 1 / 100"
  by (rule py_round_exact [where k = 100]) simp

lemma reduced_diameter_floor: "1 / 100 \<le> calculate_pipe_diameter_reduction m age d"
proof -
  have "py_round (1 / 100) 4 \<le> py_round (max (d - 2 * (dict_get CORROSION_RATES m 0.1 / 1000 * age)) (1 / 100)) 4"
    by (rule py_round_mono) simp
  then show ?thesis
    by (simp add: calculate_pipe_diameter_reduction_def py_round_hundredth)
qed

lemma reduced_diameter_pos: "0 < calculate_pipe_diameter_reduction m age d"
  using reduced_diameter_floor [of m age d] by linarith

lemma py_round_error_upper: "py_round x n \<le> x + 1 / (2 * 10 ^ n)"
proof -
  have "of_int (round_half_even (x * 10 ^ n)) \<le> x * 10 ^ n + 1 / 2"
    by (rule round_half_even_upper)
  then have "of_int (round_half_even (x * 10 ^ n)) / 10 ^ n \<le> (x * 10 ^ n + 1 / 2) / 10 ^ n"
    by (rule divide_right_mono) simp
  then show ?thesis by (simp add: py_round_def field_simps)
qed

lemma py_round_error_lower: "x - 1 / (2 * 10 ^ n) \<le> py_round x n"
proof -
  have "x * 10 ^ n - 1 / 2 \<le> of_int (round_half_even (x * 10 ^ n))"
    by (rule round_half_even_lower)
  then have "(x * 10 ^ n - 1 / 2) / 10 ^ n \<le> of_int (round_half_even (x * 10 ^ n)) / 10 ^ n"
    by (rule divide_right_mono) simp
  then show ?thesis by (simp add: py_round_def field_simps)
qed

lemma py_round_grid: "\<exists>k::int. py_round x n = of_int k / 10 ^ n"
  unfolding py_round_def by blast

subsection \<open>The two loops\<close>

lemma pump_loop_foldl: "pump_loop pumps t = foldl time_sub t (map fst pumps)"
  by (induction pumps t rule: pump_loop.induct) simp_all

lemma foldl_time_sub_Fin: "foldl time_sub (Fin a) xs = Fin (a - sum_list xs)"
  by (induction xs arbitrary: a) (simp_all add: algebra_simps)

lemma foldl_time_sub_PInf: "foldl time_sub PInf xs = PInf"
  by (induction xs) simp_all

lemma time_add_PInf_left: "time_add PInf t = PInf"
  by simp







lemma main_body_time:
  assumes "main_body (m, age, d0, tdist, reds, slopes, pumps) = Inr r"
  shows "\<exists>t rd'. slope_loop (calculate_pipe_diameter_reduction m (of_int age) d0)
            (of_int (dict_get ROUGHNESS_COEFFICIENTS m 100)) slopes (Fin 0, tdist) = Inr (t, rd')
          \<and> travel_time_seconds r = pump_loop pumps t"
  using assms by (auto simp: Let_def split: sum.splits)

lemma calculate_velocity_rounds:
  assumes "0 < d" "0 < s"
  shows "calculate_velocity d s c = Inr (py_round (spec_velocity d s c) 2)"
  using assms by (simp add: calculate_velocity_pos spec_velocity_def)

subsection \<open>Bounds on \<open>pi\<close>\<close>

lemma pi_ge_three: "3 \<le> pi"
proof -
  have "sin (pi / 6) \<le> pi / 6" by (rule sin_x_le_x) simp
  then show ?thesis by (simp add: sin_30)
qed

lemma sin_cubic_lower:
  assumes "0 < (x::real)"
  shows "x - x ^ 3 / 6 \<le> sin x"
proof -
  from Maclaurin_sin_expansion3 [of 3 x] assms obtain t where
    t: "sin x = (\<Sum>m<3. sin_coeff m * x ^ m) + (sin (t + 1 / 2 * real 3 * pi) / fact 3) * x ^ 3"
    by auto
  have s: "(\<Sum>m<3. sin_coeff m * x ^ m) = x"
    by (simp add: numeral_eq_Suc sin_coeff_def)
  have f: "fact 3 = (6::real)" by (simp add: numeral_eq_Suc)
  have "- 1 \<le> sin (t + 1 / 2 * real 3 * pi)" by (rule sin_ge_minus_one)
  moreover have "0 \<le> x ^ 3 / 6" using assms by simp
  ultimately have "- (x ^ 3 / 6) \<le> sin (t + 1 / 2 * real 3 * pi) * (x ^ 3 / 6)"
    by (metis mult_minus1 mult_right_mono)
  with t s f show ?thesis by simp
qed

lemma sin_quintic_upper:
  assumes "0 < (x::real)"
  shows "sin x \<le> x - x ^ 3 / 6 + x ^ 5 / 120"
proof -
  from Maclaurin_sin_expansion3 [of 5 x] assms obtain t where
    t: "sin x = (\<Sum>m<5. sin_coeff m * x ^ m) + (sin (t + 1 / 2 * real 5 * pi) / fact 5) * x ^ 5"
    by auto
  have s: "(\<Sum>m<5. sin_coeff m * x ^ m) = x - x ^ 3 / 6"
    by (simp add: numeral_eq_Suc sin_coeff_Suc cos_coeff_Suc)
  have f: "fact 5 = (120::real)" by (simp add: numeral_eq_Suc)
  have "sin (t + 1 / 2 * real 5 * pi) \<le> 1" by (rule sin_le_one)
  moreover have "0 \<le> x ^ 5 / 120" using assms by simp
  ultimately have "sin (t + 1 / 2 * real 5 * pi) * (x ^ 5 / 120) \<le> x ^ 5 / 120"
    by (metis mult_1 mult_right_mono)
  with t s f show ?thesis by simp
qed

lemma pi_lower: "309 / 100 \<le> pi"
proof (rule ccontr)
  assume "\<not> 309 / 100 \<le> pi"
  then have up: "pi / 6 < 103 / 200" by simp
  have pos: "0 < pi / 6" by simp
  have "1 / 2 \<le> pi / 6 - (pi / 6) ^ 3 / 6 + (pi / 6) ^ 5 / 120"
    using sin_quintic_upper [OF pos] by (simp add: sin_30)
  moreover have "(1 / 2) ^ 3 \<le> (pi / 6) ^ 3"
    using pi_ge_three by (intro power_mono) simp_all
  moreover have "(pi / 6) ^ 5 \<le> (103 / 200) ^ 5"
    using up by (intro power_mono) simp_all
  ultimately have "(1 / 2 :: real) \<le> 103 / 200 - (1 / 2) ^ 3 / 6 + (103 / 200) ^ 5 / 120"
    using up by linarith
  then show False by (simp add: power_divide)
qed

lemma pi_upper: "pi \<le> 3156 / 1000"
proof (rule ccontr)
  assume "\<not> pi \<le> 3156 / 1000"
  then have lo: "263 / 500 < pi / 6" by simp
  have hi: "pi / 6 < 2 / 3" using pi_less_4 by simp
  define x where "x = pi / 6"
  define a where "a = (263 / 500 :: real)"
  have pos: "0 < x" by (simp add: x_def)
  have "x - x ^ 3 / 6 \<le> 1 / 2"
    using sin_cubic_lower [OF pos] by (simp add: x_def sin_30)
  moreover have "a - a ^ 3 / 6 \<le> x - x ^ 3 / 6"
  proof -
    have xa: "0 \<le> x - a" using lo by (simp add: x_def a_def)
    have "x * x + a * x + a * a \<le> 2 / 3 * (2 / 3) + 2 / 3 * (2 / 3) + 2 / 3 * (2 / 3)"
      using hi lo by (intro add_mono mult_mono) (simp_all add: x_def a_def)
    then have "0 \<le> 1 - (x * x + a * x + a * a) / 6" by simp
    with xa have "0 \<le> (x - a) * (1 - (x * x + a * x + a * a) / 6)"
      by (rule mult_nonneg_nonneg)
    also have "\<dots> = (x - x ^ 3 / 6) - (a - a ^ 3 / 6)"
      by (simp add: power3_eq_cube field_simps)
    finally show ?thesis by simp
  qed
  moreover have "1 / 2 < a - a ^ 3 / 6" by (simp add: a_def power3_eq_cube)
  ultimately show False by linarith
qed

subsection \<open>Concrete velocities\<close>

lemma cast_iron_new_diameter: "calculate_pipe_diameter_reduction ''Cast Iron'' 0 1 = 1"
  by (simp add: calculate_pipe_diameter_reduction_def dict_get_def CORROSION_RATES_def
      py_round_def round_half_even_def)

lemma cast_iron_roughness: "dict_get ROUGHNESS_COEFFICIENTS ''Cast Iron'' 100 = 100"
  by (simp add: dict_get_def ROUGHNESS_COEFFICIENTS_def)

lemma spec_velocity_unit: "spec_velocity 1 1 100 = 800 / (557 * pi)"
  by (simp add: spec_velocity_def power2_eq_square)

lemma unit_velocity_lower: "7 / 20 \<le> py_round (spec_velocity 1 1 100) 2"
proof -
  have "pi < 4" by (rule pi_less_4)
  then have "557 * pi < 557 * 4" by simp
  then have "800 / (557 * 4) \<le> 800 / (557 * pi)"
    by (intro divide_left_mono) (simp_all add: pi_gt_zero)
  then have "7 / 20 \<le> spec_velocity 1 1 100"
    by (simp add: spec_velocity_unit)
  then have "py_round (7 / 20) 2 \<le> py_round (spec_velocity 1 1 100) 2"
    by (rule py_round_mono)
  moreover have "py_round (7 / 20) 2 = 7 / 20"
    by (rule py_round_exact [where k = 35]) simp
  ultimately show ?thesis by simp
qed

lemma shallow_slope_powr: "(1 / 10000 :: real) powr 0.54 \<le> 1 / 100"
proof -
  have "(1 / 10000 :: real) powr 0.54 \<le> (1 / 10000) powr (1 / 2)"
    by (rule powr_mono') simp_all
  also have "\<dots> = sqrt (1 / 10000)" by (simp add: powr_half_sqrt)
  also have "\<dots> = 1 / 100" by (rule real_sqrt_unique) (simp_all add: power2_eq_square)
  finally show ?thesis .
qed

lemma shallow_velocity_small:
  assumes "0 < s" "s \<le> 1 / 10000"
  shows "0 \<le> spec_velocity 1 s 100" "spec_velocity 1 s 100 < 1 / 200"
proof -
  have eq: "spec_velocity 1 s 100 = 800 * s powr 0.54 / (557 * pi)"
    by (simp add: spec_velocity_def power2_eq_square)
  show "0 \<le> spec_velocity 1 s 100" unfolding eq by simp
  have "s powr 0.54 \<le> (1 / 10000) powr 0.54"
    using assms by (intro powr_mono2) simp_all
  with shallow_slope_powr have p: "s powr 0.54 \<le> 1 / 100" by linarith
  have "800 * s powr 0.54 < 1 / 200 * (557 * pi)"
    using p pi_ge_three by linarith
  then show "spec_velocity 1 s 100 < 1 / 200"
    unfolding eq by (simp add: pos_divide_less_eq)
qed

lemma shallow_velocity_zero:
  assumes "0 < s" "s \<le> 1 / 10000"
  shows "calculate_velocity 1 s 100 = Inr 0"
proof -
  have "py_round (spec_velocity 1 s 100) 2 = 0"
    using shallow_velocity_small [OF assms] by (intro py_round_small) simp_all
  with assms(1) show ?thesis by (simp add: calculate_velocity_rounds)
qed

lemma unit_velocity_rounded: "py_round (spec_velocity 1 1 100) 2 = 23 / 50"
proof -
  have pos: "0 < 557 * pi" by simp
  have "800 \<le> 4649 / 10000 * (557 * pi)" using pi_lower by linarith
  then have hi: "spec_velocity 1 1 100 \<le> 4649 / 10000"
    unfolding spec_velocity_unit using pos by (simp only: pos_divide_le_eq)
  have "45505 / 100000 * (557 * pi) \<le> 800" using pi_upper by linarith
  then have lo: "45505 / 100000 \<le> spec_velocity 1 1 100"
    unfolding spec_velocity_unit using pos by (simp only: pos_le_divide_eq)
  have a: "py_round (45505 / 100000) 2 = 23 / 50"
    by (simp add: py_round_def round_half_even_def)
  have b: "py_round (4649 / 10000) 2 = 23 / 50"
    by (simp add: py_round_def round_half_even_def)
  from py_round_mono [OF lo, of 2] py_round_mono [OF hi, of 2] a b
  show ?thesis by linarith
qed

lemma unit_velocity: "calculate_velocity 1 1 100 = Inr (23 / 50)"
  by (simp add: calculate_velocity_rounds unit_velocity_rounded)

lemma main_body_cast_iron_unit:
  "main_body (''Cast Iron'', 0, 1, td, reds, [(1, l)], pumps) =
     Inr \<lparr> pipe_material = ''Cast Iron'', pipe_age = 0, initial_diameter_meters = 1,
           reduced_diameter_meters = 1, total_distance_meters = td,
           travel_time_seconds = pump_loop pumps (Fin (l / (23 / 50))) \<rparr>"
  by (simp add: cast_iron_new_diameter cast_iron_roughness unit_velocity section_time_def)

subsection \<open>More on the loops\<close>

lemma pump_loop_PInf: "pump_loop pumps PInf = PInf"
  by (simp add: pump_loop_foldl foldl_time_sub_PInf)

lemma pump_loop_Fin: "pump_loop pumps (Fin a) = Fin (a - sum_list (map fst pumps))"
  by (simp add: pump_loop_foldl foldl_time_sub_Fin)

lemma slope_loop_positive:
  assumes "0 < d" "\<forall>x\<in>set slopes. 0 < fst x"
  shows "slope_loop d c slopes (t0, rd) =
     Inr (foldl time_add t0
            (map (\<lambda>(s, l). section_time l (py_round (spec_velocity d s c) 2)) slopes),
          rd - sum_list (map snd slopes))"
  using assms(2)
proof (induction slopes arbitrary: t0 rd)
  case Nil
  then show ?case by simp
next
  case (Cons x slopes)
  obtain s l where x: "x = (s, l)" by (cases x)
  with Cons.prems have s: "0 < s" by simp
  from Cons.prems have "\<forall>x\<in>set slopes. 0 < fst x" by simp
  from Cons.IH [OF this] x s assms(1) show ?case
    by (simp add: calculate_velocity_rounds algebra_simps)
qed

lemma foldl_time_add_Fin:
  assumes "\<forall>x\<in>set slopes. 0 < f x"
  shows "foldl time_add (Fin a) (map (\<lambda>x. section_time (snd x) (f x)) slopes) =
     Fin (a + sum_list (map (\<lambda>x. snd x / f x) slopes))"
  using assms
  by (induction slopes arbitrary: a) (simp_all add: section_time_def algebra_simps)

lemma spec_velocity_strict_mono:
  assumes "0 < d" "0 < c" "0 < s1" "s1 < s2"
  shows "spec_velocity d s1 c < spec_velocity d s2 c"
proof -
  have p: "s1 powr 0.54 < s2 powr 0.54"
    using assms(3,4) by (intro powr_less_mono2) simp_all
  have k: "0 < c * d powr 2.63" using assms(1,2) by simp
  have a: "0 < pi * (d / 2) ^ 2" using assms(1) by simp
  from p k have "c * d powr 2.63 * s1 powr 0.54 < c * d powr 2.63 * s2 powr 0.54"
    by (rule mult_strict_left_mono)
  then have "c * d powr 2.63 * s1 powr 0.54 / 278.5 < c * d powr 2.63 * s2 powr 0.54 / 278.5"
    by (rule divide_strict_right_mono) simp
  then show ?thesis
    unfolding spec_velocity_def using a by (rule divide_strict_right_mono)
qed



lemma steel_scenario: "calculate_pipe_diameter_reduction ''Steel'' 10 0.5 = 0.496"
  by (simp add: calculate_pipe_diameter_reduction_def dict_get_def CORROSION_RATES_def
      py_round_def round_half_even_def)

lemma scenario5_run:
  "main_body (''Cast Iron'', 0, 1, 55.2, [], [(1, 55.2)], [(0.05, 10)]) =
     Inr \<lparr> pipe_material = ''Cast Iron'', pipe_age = 0, initial_diameter_meters = 1,
           reduced_diameter_meters = 1, total_distance_meters = 55.2,
           travel_time_seconds = Fin 119.95 \<rparr>"
  by (subst main_body_cast_iron_unit) simp

section \<open>Claims\<close>

text \<open>
  Claim C1. As stated (the effective diameter equals
  \<open>max(initialDiameter - 2 * (baseCorrosionRate / 1000) * age, 0.01)\<close>) the claim fails:
  \<open>calculate_pipe_diameter_reduction\<close> returns that value rounded to four decimal places.
  What holds for every material, age and initial diameter: the result is the formula's value
  rounded to four places, so it is a multiple of 0.0001 within 0.00005 of the formula; and for
  Steel, age 10 and an initial diameter of 0.5 m it is 0.496 m.
\<close>

theorem diameter_reduction_rounded_formula:
  "calculate_pipe_diameter_reduction m age d =
     py_round (max (d - 2 * (dict_get CORROSION_RATES m 0.1 / 1000) * age) 0.01) 4
   \<and> \<bar>calculate_pipe_diameter_reduction m age d
        - max (d - 2 * (dict_get CORROSION_RATES m 0.1 / 1000) * age) 0.01\<bar> \<le> 1 / 20000
   \<and> (\<exists>k::int. calculate_pipe_diameter_reduction m age d = of_int k / 10000)
   \<and> calculate_pipe_diameter_reduction ''Steel'' 10 0.5 = 0.496"
proof -
  define x where "x = max (d - 2 * (dict_get CORROSION_RATES m 0.1 / 1000) * age) 0.01"
  define r where "r = calculate_pipe_diameter_reduction m age d"
  have eq: "r = py_round x 4"
    by (simp add: r_def x_def calculate_pipe_diameter_reduction_def Let_def algebra_simps)
  have "py_round x 4 \<le> x + 1 / 20000"
    using py_round_error_upper [of x 4] by simp
  moreover have "x - 1 / 20000 \<le> py_round x 4"
    using py_round_error_lower [of x 4] by simp
  ultimately have err: "\<bar>r - x\<bar> \<le> 1 / 20000" unfolding eq by linarith
  have grid: "\<exists>k::int. r = of_int k / 10000"
    unfolding eq using py_round_grid [of x 4] by simp
  from eq err grid steel_scenario show ?thesis
    unfolding r_def x_def by blast
qed

text \<open>
  Steel, age 10, initial diameter 0.50001 m: the formula gives 0.49601, the function
  returns 0.496.
\<close>

theorem diameter_reduction_not_unrounded:
  "calculate_pipe_diameter_reduction ''Steel'' 10 0.50001 = 0.496
   \<and> max (0.50001 - 2 * (dict_get CORROSION_RATES ''Steel'' 0.1 / 1000) * 10) 0.01 = 0.49601
   \<and> calculate_pipe_diameter_reduction ''Steel'' 10 0.50001
       \<noteq> max (0.50001 - 2 * (dict_get CORROSION_RATES ''Steel'' 0.1 / 1000) * 10) 0.01"
  by (simp add: calculate_pipe_diameter_reduction_def dict_get_def CORROSION_RATES_def
      py_round_def round_half_even_def)

text \<open>
  Claim C2. As stated (the effective diameter is at least 0.01 and at most the initial
  diameter) the claim fails in its upper bound: the floor of 0.01 lifts an initial diameter
  below 0.01, and the rounding to four places can round up. What holds for every material and
  every age that is not negative: the result is at least 0.01 and at most
  \<open>max(initialDiameter, 0.01) + 0.00005\<close>; it is at most the initial diameter whenever
  that is at least 0.01 and a multiple of 0.0001.
\<close>

theorem diameter_reduction_bounds:
  assumes "0 \<le> age"
  shows "1 / 100 \<le> calculate_pipe_diameter_reduction m age d
    \<and> calculate_pipe_diameter_reduction m age d \<le> max d (1 / 100) + 1 / 20000
    \<and> (1 / 100 \<le> d \<and> d * 10000 = of_int k \<longrightarrow> calculate_pipe_diameter_reduction m age d \<le> d)"
proof -
  define loss where "loss = 2 * (dict_get CORROSION_RATES m 0.1 / 1000 * age)"
  define r where "r = calculate_pipe_diameter_reduction m age d"
  have eq: "r = py_round (max (d - loss) (1 / 100)) 4"
    by (simp add: r_def loss_def calculate_pipe_diameter_reduction_def Let_def)
  have "0 \<le> dict_get CORROSION_RATES m 0.1 / 1000 * age"
    using assms corrosion_rate_nonneg [of m] by (intro mult_nonneg_nonneg) simp_all
  then have "0 \<le> loss" unfolding loss_def by linarith
  then have "max (d - loss) (1 / 100) \<le> max d (1 / 100)" by linarith
  then have mono: "r \<le> py_round (max d (1 / 100)) 4"
    unfolding eq by (rule py_round_mono)
  have "py_round (max d (1 / 100)) 4 \<le> max d (1 / 100) + 1 / (2 * 10 ^ 4)"
    by (rule py_round_error_upper)
  with mono have up: "r \<le> max d (1 / 100) + 1 / 20000" by simp
  have ex: "r \<le> d" if "1 / 100 \<le> d" "d * 10000 = of_int k"
  proof -
    from that(2) have "d * 10 ^ 4 = of_int k" by simp
    then have "py_round d 4 = d" by (rule py_round_exact)
    moreover from that(1) have "max d (1 / 100) = d" by simp
    ultimately show ?thesis using mono by simp
  qed
  have "1 / 100 \<le> r" unfolding r_def by (rule reduced_diameter_floor)
  with up ex show ?thesis unfolding r_def by blast
qed

text \<open>
  The bounds at Steel, age 10, initial diameter 0.5 m.
\<close>

theorem diameter_reduction_bounds_witness:
  "(0::real) \<le> 10 \<and> (1 / 100 \<le> (1 / 2 :: real) \<and> (1 / 2 :: real) * 10000 = of_int 5000)
   \<and> 1 / 100 \<le> calculate_pipe_diameter_reduction ''Steel'' 10 (1 / 2)
   \<and> calculate_pipe_diameter_reduction ''Steel'' 10 (1 / 2) \<le> 1 / 2"
  using diameter_reduction_bounds [of 10 "''Steel''" "1 / 2" 5000] by simp

text \<open>
  Cast Iron, age 0, initial diameter 0.005 m: the function returns 0.01, which is more
  than the initial diameter.
\<close>

theorem diameter_reduction_above_small_initial:
  "calculate_pipe_diameter_reduction ''Cast Iron'' 0 0.005 = 0.01 \<and>
   \<not> calculate_pipe_diameter_reduction ''Cast Iron'' 0 0.005 \<le> 0.005"
  by (simp add: calculate_pipe_diameter_reduction_def dict_get_def CORROSION_RATES_def
      py_round_def round_half_even_def)

text \<open>
  Claim C3 (a slope that is zero or negative gives velocity 0 and raises nothing). The guard
  of \<open>calculate_velocity\<close> tests \<open>S == 0\<close> only. At diameter 0.5, slope -0.01 and
  roughness 120 the power \<open>S ** 0.54\<close> is a complex number and \<open>round\<close> raises
  \<open>TypeError\<close>; at slope 0 the result is 0.
\<close>

theorem calculate_velocity_negative_slope_raises:
  "calculate_velocity 0.5 (- 0.01) 120 = Inl TypeError \<and> calculate_velocity 0.5 0 120 = Inr 0"
  by (simp add: calculate_velocity_neg calculate_velocity_zero)



text \<open>
  Claim C5. The travel time that \<open>main\<close> returns is the time accumulated by the loop
  over the sections with the flow rate of each pump subtracted from it, one subtraction per
  pump in input order: for a finite accumulated time \<open>a\<close> it is \<open>a\<close> minus the sum of
  the flow rates. One pump of flow rate 0.05 after 120.0 s gives 119.95 s.
\<close>

theorem pumps_subtract_flow_rates:
  assumes "main_body (m, age, d0, td, reds, slopes, pumps) = Inr r"
  shows "\<exists>acc rd.
      slope_loop (calculate_pipe_diameter_reduction m (of_int age) d0)
        (of_int (dict_get ROUGHNESS_COEFFICIENTS m 100)) slopes (Fin 0, td) = Inr (acc, rd)
      \<and> travel_time_seconds r = foldl time_sub acc (map fst pumps)
      \<and> travel_time_seconds r =
          (case acc of Fin a \<Rightarrow> Fin (a - sum_list (map fst pumps)) | PInf \<Rightarrow> PInf)
      \<and> pump_loop [(0.05, position)] (Fin 120) = Fin 119.95"
proof -
  from main_body_time [OF assms] obtain t rd where
    loop: "slope_loop (calculate_pipe_diameter_reduction m (of_int age) d0)
             (of_int (dict_get ROUGHNESS_COEFFICIENTS m 100)) slopes (Fin 0, td) = Inr (t, rd)"
    and tt: "travel_time_seconds r = pump_loop pumps t"
    by blast
  have "pump_loop pumps t = (case t of Fin a \<Rightarrow> Fin (a - sum_list (map fst pumps)) | PInf \<Rightarrow> PInf)"
    by (cases t) (simp_all add: pump_loop_Fin pump_loop_PInf)
  with loop tt show ?thesis by (auto simp: pump_loop_foldl)
qed

text \<open>
  Cast Iron, age 0, diameter 1 m, one section of slope 1 and length 55.2 m (velocity 0.46,
  so 120 s), one pump of flow rate 0.05: the travel time is 119.95 s.
\<close>

theorem pumps_subtract_flow_rates_witness:
  "slope_loop 1 100 [(1, 55.2)] (Fin 0, 55.2) = Inr (Fin 120, 0)
   \<and> map_sum id travel_time_seconds
        (main_body (''Cast Iron'', 0, 1, 55.2, [], [(1, 55.2)], [(0.05, 10)])) = Inr (Fin 119.95)"
  using pumps_subtract_flow_rates [OF scenario5_run]
  by (simp add: scenario5_run cast_iron_new_diameter cast_iron_roughness unit_velocity
      section_time_def)

text \<open>
  Claim C6. As stated (the accumulated time is the sum of section length divided by the
  full-precision Hazen-Williams velocity, rounding being for display only) the claim fails:
  \<open>calculate_velocity\<close> returns the velocity rounded to two decimal places and the loop
  divides by that. What holds for every route that is not empty and has all slopes greater
  than 0: \<open>main\<close> returns, and the accumulated time is the sum over the sections of the
  section time for the velocity rounded to two places, which is infinite for a section whose
  velocity rounds to 0; where every rounded velocity is positive it is the sum of section
  length divided by the rounded velocity.
\<close>

theorem travel_time_uses_rounded_velocity:
  fixes m :: string and age :: int and d0 :: real
  defines "D \<equiv> calculate_pipe_diameter_reduction m (of_int age) d0"
    and "C \<equiv> real_of_int (dict_get ROUGHNESS_COEFFICIENTS m 100)"
  assumes "slopes \<noteq> []" and "\<forall>x\<in>set slopes. 0 < fst x"
  shows "\<exists>r. main_body (m, age, d0, td, reds, slopes, pumps) = Inr r
    \<and> travel_time_seconds r =
        pump_loop pumps
          (foldl time_add (Fin 0)
             (map (\<lambda>(s, l). section_time l (py_round (spec_velocity D s C) 2)) slopes))
    \<and> ((\<forall>x\<in>set slopes. 0 < py_round (spec_velocity D (fst x) C) 2) \<longrightarrow>
         travel_time_seconds r =
           pump_loop pumps
             (Fin (sum_list
                (map (\<lambda>(s, l). l / py_round (spec_velocity D s C) 2) slopes))))"
proof -
  have d: "0 < D" unfolding D_def by (rule reduced_diameter_pos)
  let ?acc = "foldl time_add (Fin 0)
     (map (\<lambda>(s, l). section_time l (py_round (spec_velocity D s C) 2)) slopes)"
  have loop: "slope_loop D C slopes (Fin 0, td) = Inr (?acc, td - sum_list (map snd slopes))"
    using d assms(4) by (rule slope_loop_positive)
  from assms(3) obtain s l rest where sl: "slopes = (s, l) # rest"
    by (cases slopes) auto
  with assms(4) have "0 < s" by simp
  with d have v: "calculate_velocity D s C = Inr (py_round (spec_velocity D s C) 2)"
    by (rule calculate_velocity_rounds)
  have first: "first_slope slopes = Inr s" by (simp add: sl)
  define r where "r = \<lparr> pipe_material = m, pipe_age = age, initial_diameter_meters = d0,
     reduced_diameter_meters = D, total_distance_meters = td,
     travel_time_seconds = pump_loop pumps ?acc \<rparr>"
  have run: "main_body (m, age, d0, td, reds, slopes, pumps) = Inr r"
    using first v loop by (simp add: Let_def r_def D_def [symmetric] C_def [symmetric])
  have tt: "travel_time_seconds r = pump_loop pumps ?acc" by (simp add: r_def)
  have fin: "?acc = Fin (sum_list
      (map (\<lambda>(s, l). l / py_round (spec_velocity D s C) 2) slopes))"
    if "\<forall>x\<in>set slopes. 0 < py_round (spec_velocity D (fst x) C) 2"
    using foldl_time_add_Fin [OF that, of 0] by (simp add: case_prod_unfold)
  from run tt fin show ?thesis by auto
qed

text \<open>
  Cast Iron, age 0, diameter 1 m, one section of slope 1 and length 55.2 m: the rounded
  velocity is 0.46 and the travel time 120 s.
\<close>

theorem travel_time_uses_rounded_velocity_witness:
  "[(1 :: real, 276 / 5 :: real)] \<noteq> []
   \<and> 0 < py_round (spec_velocity 1 1 100) 2
   \<and> (\<exists>r. main_body (''Cast Iron'', 0, 1, 276 / 5, [], [(1, 276 / 5)], []) = Inr r
          \<and> travel_time_seconds r = Fin 120)"
  using travel_time_uses_rounded_velocity [of "[(1, 276 / 5)]" "''Cast Iron''" 0 1 "276 / 5" "[]" "[]"]
  by (simp add: cast_iron_new_diameter cast_iron_roughness unit_velocity_rounded) blast

text \<open>
  Cast Iron, age 0, diameter 1 m, one section of slope 0.0001 and length 1000 m: the
  velocity rounds to 0.00, so the travel time is infinite, while the sum with the
  full-precision velocity is a finite number.
\<close>

theorem travel_time_not_full_precision:
  "map_sum id travel_time_seconds
     (main_body (''Cast Iron'', 0, 1, 1000, [], [(1 / 10000, 1000)], [])) = Inr PInf
   \<and> (Inr PInf :: py_error + py_time) \<noteq> Inr (Fin (spec_total_time 1 100 [(1 / 10000, 1000)]))"
  by (simp add: cast_iron_new_diameter cast_iron_roughness shallow_velocity_zero section_time_def)

text \<open>
  Claim C7. As stated (the velocity is strictly increasing in the slope) the claim fails:
  the result is rounded to two decimal places, so two slopes can give the same velocity. What
  holds for every diameter and roughness greater than 0 and slopes \<open>0 < s1 < s2\<close>: the
  velocity before rounding is strictly increasing, the function returns the rounded values,
  and the returned velocity at \<open>s1\<close> is at most the one at \<open>s2\<close>.
\<close>

theorem calculate_velocity_weakly_monotone:
  assumes "0 < d" "0 < c" "0 < s1" "s1 < s2"
  shows "spec_velocity d s1 c < spec_velocity d s2 c
    \<and> (\<exists>v1 v2. calculate_velocity d s1 c = Inr v1 \<and> calculate_velocity d s2 c = Inr v2
          \<and> v1 = py_round (spec_velocity d s1 c) 2
          \<and> v2 = py_round (spec_velocity d s2 c) 2
          \<and> v1 \<le> v2)"
proof -
  have lt: "spec_velocity d s1 c < spec_velocity d s2 c"
    using assms by (rule spec_velocity_strict_mono)
  then have "py_round (spec_velocity d s1 c) 2 \<le> py_round (spec_velocity d s2 c) 2"
    by (intro py_round_mono) simp
  moreover have "calculate_velocity d s1 c = Inr (py_round (spec_velocity d s1 c) 2)"
    using assms(1,3) by (rule calculate_velocity_rounds)
  moreover have "0 < s2" using assms(3,4) by simp
  with assms(1) have "calculate_velocity d s2 c = Inr (py_round (spec_velocity d s2 c) 2)"
    by (rule calculate_velocity_rounds)
  ultimately show ?thesis using lt by simp
qed

text \<open>
  Diameter 1 m, roughness 100, slopes 0.0001 and 1: velocities 0 and 0.46.
\<close>

theorem calculate_velocity_weakly_monotone_witness:
  "(0::real) < 1 \<and> (0::real) < 100 \<and> (0::real) < 1 / 10000 \<and> (1 / 10000 :: real) < 1
   \<and> calculate_velocity 1 (1 / 10000) 100 = Inr 0
   \<and> calculate_velocity 1 1 100 = Inr (23 / 50)
   \<and> spec_velocity 1 (1 / 10000) 100 < spec_velocity 1 1 100"
  using calculate_velocity_weakly_monotone [of 1 100 "1 / 10000" 1]
  by (simp add: shallow_velocity_zero unit_velocity)

text \<open>
  Diameter 1 m, roughness 100: the slopes 0.00005 and 0.0001 both give velocity 0.
\<close>

theorem calculate_velocity_not_strictly_monotone:
  "calculate_velocity 1 (1 / 20000) 100 = Inr 0 \<and> calculate_velocity 1 (1 / 10000) 100 = Inr 0"
  by (simp add: shallow_velocity_zero)



text \<open>
  Claim C9. Two runs that differ only in the positions of the pumps (the same flow rates in
  the same order) return the same result.
\<close>

theorem pump_positions_irrelevant:
  assumes "map fst pumps1 = map fst pumps2"
  shows "main_body (m, age, d0, td, reds, slopes, pumps1) =
           main_body (m, age, d0, td, reds, slopes, pumps2)
    \<and> main (m, age, d0, td, reds, slopes, pumps1) = main (m, age, d0, td, reds, slopes, pumps2)"
proof -
  have eq: "pump_loop pumps1 = pump_loop pumps2"
    using assms by (intro ext) (simp add: pump_loop_foldl)
  show ?thesis
    unfolding main_def get_user_input.simps main_body.simps eq by simp
qed

text \<open>
  A pump of flow rate 0.05 at 10 m and at 900 m.
\<close>

theorem pump_positions_irrelevant_witness:
  "map fst [(1 / 20 :: real, 10 :: real)] = map fst [(1 / 20 :: real, 900 :: real)]
   \<and> main_body (''Cast Iron'', 0, 1, 276 / 5, [], [(1, 276 / 5)], [(1 / 20, 10)]) =
       main_body (''Cast Iron'', 0, 1, 276 / 5, [], [(1, 276 / 5)], [(1 / 20, 900)])
   \<and> main (''Cast Iron'', 0, 1, 276 / 5, [], [(1, 276 / 5)], [(1 / 20, 10)]) =
       main (''Cast Iron'', 0, 1, 276 / 5, [], [(1, 276 / 5)], [(1 / 20, 900)])"
proof -
  have h: "map fst [(1 / 20 :: real, 10 :: real)] = map fst [(1 / 20 :: real, 900 :: real)]"
    by simp
  from pump_positions_irrelevant [OF h, of "''Cast Iron''" 0 1 "276 / 5" "[]" "[(1, 276 / 5)]"] h
  show ?thesis by blast
qed

text \<open>
  Claim C10. The result is not bounded below by 0: for Cast Iron, age 0, diameter 1 m, one
  section of slope 1 and length 1 m, and one pump of flow rate 10, the travel time returned is
  \<open>50 / 23 - 10\<close> seconds, which is negative.
\<close>

theorem travel_time_can_be_negative:
  "map_sum id travel_time_seconds
     (main_body (''Cast Iron'', 0, 1, 1, [], [(1, 1)], [(10, 0)])) = Inr (Fin (50 / 23 - 10))
   \<and> (50 / 23 - 10 :: real) < 0"
  by (subst main_body_cast_iron_unit) simp

end
